theory Spec2Isabelle
  imports Main "HOL-Library.Multiset"
begin

section \<open>Data model\<close>

text \<open>
  A row of the users table read by \<^verbatim>\<open>pd.read_csv\<close>. The columns \<^verbatim>\<open>interests\<close>,
  \<^verbatim>\<open>languages\<close>, \<^verbatim>\<open>preferredActivities\<close>, \<^verbatim>\<open>preferredCountries\<close> and
  \<^verbatim>\<open>dislikedUserIds\<close> hold the text of a Python list; the record stores the list that
  \<^verbatim>\<open>ast.literal_eval\<close> returns for that text, in the order and with the repetitions
  written in the cell. The table itself is the list of its rows, in row order.
\<close>

record user =
  userId :: int
  userName :: string
  userType :: string
  interests :: "string list"
  languages :: "string list"
  travelStyle :: string
  preferredActivities :: "string list"
  preferredCountries :: "string list"
  dislikedUserIds :: "int list"

text \<open>The exceptions the two functions can raise.\<close>

datatype error = IndexError | AttributeError

text \<open>An entry of the result: \<^verbatim>\<open>(userName, userId, score)\<close>.\<close>

type_synonym match = "string \<times> int \<times> int"

section \<open>The compatibility scorer\<close>

text \<open>
  \<^verbatim>\<open>calculate_compatibility(user1, user2)\<close>: \<^verbatim>\<open>score\<close> starts at 0 and is increased
  five times; \<^verbatim>\<open>set(...)\<close> is \<^const>\<open>set\<close>, \<^verbatim>\<open>intersection\<close> is \<open>\<inter>\<close> and
  \<^verbatim>\<open>len\<close> is \<^const>\<open>card\<close>.
\<close>

definition calculate_compatibility :: "user \<Rightarrow> user \<Rightarrow> int" where
  "calculate_compatibility user1 user2 =
     (let score = 0;
          interests1 = set (interests user1);
          interests2 = set (interests user2);
          score = score + int (card (interests1 \<inter> interests2)) * 10;
          languages1 = set (languages user1);
          languages2 = set (languages user2);
          score = score + int (card (languages1 \<inter> languages2)) * 30;
          score = (if travelStyle user1 = travelStyle user2 then score + 25 else score);
          activities1 = set (preferredActivities user1);
          activities2 = set (preferredActivities user2);
          score = score + int (card (activities1 \<inter> activities2)) * 10;
          countries1 = set (preferredCountries user1);
          countries2 = set (preferredCountries user2);
          score = score + int (card (countries1 \<inter> countries2)) * 20
      in score)"

section \<open>The match finder\<close>

text \<open>\<^verbatim>\<open>.iloc[0]\<close>: the first row of a selection; on an empty selection it raises
  \<^verbatim>\<open>IndexError\<close> (single positional indexer is out-of-bounds).\<close>

definition iloc0 :: "'a list \<Rightarrow> error + 'a" where
  "iloc0 rows = (case rows of [] \<Rightarrow> Inl IndexError | r # _ \<Rightarrow> Inr r)"

text \<open>The body of the \<^verbatim>\<open>for ... in potential_matches.iterrows()\<close> loop, with the list
  \<^verbatim>\<open>scores\<close> built so far as accumulator.\<close>

fun score_loop :: "user \<Rightarrow> int \<Rightarrow> user list \<Rightarrow> match list \<Rightarrow> match list" where
  "score_loop current_user user_id [] scores = scores"
| "score_loop current_user user_id (potential_match # rest) scores =
     (if userId potential_match = user_id
      then score_loop current_user user_id rest scores
      else (let score = calculate_compatibility current_user potential_match
            in score_loop current_user user_id rest
                 (scores @ [(userName potential_match, userId potential_match, score)])))"

text \<open>
  \<^verbatim>\<open>list.sort(key=..., reverse=True)\<close>: the list is reversed, sorted stably in
  ascending order of the key, and reversed again, so that equal keys keep their order.
\<close>

definition sort_reverse :: "('a \<Rightarrow> int) \<Rightarrow> 'a list \<Rightarrow> 'a list" where
  "sort_reverse key xs = rev (sort_key key (rev xs))"

definition find_matches :: "int \<Rightarrow> user list \<Rightarrow> error + match list" where
  "find_matches user_id users_df =
     (case iloc0 (filter (\<lambda>u. userId u = user_id) users_df) of
        Inl e \<Rightarrow> Inl e
      | Inr current_user \<Rightarrow>
          (let target_user_type =
                 (if userType current_user = ''Traveler'' then ''Guide'' else ''Traveler'');
               potential_matches = filter (\<lambda>u. userType u = target_user_type) users_df;
               disliked_ids = dislikedUserIds current_user;
               potential_matches =
                 filter (\<lambda>u. \<not> (userId u \<in> set disliked_ids)) potential_matches;
               scores = score_loop current_user user_id potential_matches []
           in Inr (sort_reverse (\<lambda>x. snd (snd x)) scores)))"

section \<open>The match finder on a store of objects\<close>

text \<open>
  The same function with the objects it touches made explicit, to state what a call
  changes. The store is the list of the objects that exist, an object's address being
  its index; \<^verbatim>\<open>users_df\<close> is the address of the table passed in. An expression
  that builds an object bound to a variable (\<^verbatim>\<open>users_df[...].copy()\<close>,
  \<^verbatim>\<open>potential_matches[...]\<close>, \<^verbatim>\<open>[]\<close>) allocates it at the next address;
  \<^verbatim>\<open>scores.append\<close> and \<^verbatim>\<open>scores.sort\<close> write to the object at the address held
  by \<^verbatim>\<open>scores\<close>. The selection \<^verbatim>\<open>users_df.loc[...]\<close>, the rows produced by
  \<^verbatim>\<open>iloc\<close> and \<^verbatim>\<open>iterrows\<close> and the sets built by the scorer are only read, and
  stay values. A computation returns its result, or the exception raised, and the store
  at that point.
\<close>

datatype obj = DataFrame "user list" | PyList "match list"

type_synonym store = "obj list"

type_synonym 'a prog = "store \<Rightarrow> (error + 'a) \<times> store"

text \<open>Returning a value, passing on the outcome of a pure step, and sequencing:
  an exception ends the computation.\<close>

definition ret :: "'a \<Rightarrow> 'a prog" where
  "ret x h = (Inr x, h)"

definition of_result :: "error + 'a \<Rightarrow> 'a prog" where
  "of_result r h = (r, h)"

definition then_do :: "'a prog \<Rightarrow> ('a \<Rightarrow> 'b prog) \<Rightarrow> 'b prog" where
  "then_do m f h = (case m h of (Inl e, h') \<Rightarrow> (Inl e, h') | (Inr x, h') \<Rightarrow> f x h')"

text \<open>A new object is placed at the first free address, which is returned.\<close>

definition new_obj :: "obj \<Rightarrow> nat prog" where
  "new_obj ob h = (Inr (length h), h @ [ob])"

text \<open>Reading the rows of a table, and the two list methods that write in place.
  An object of the other kind has no such attribute (\<^verbatim>\<open>AttributeError\<close>); an address
  beyond the store, which no reference of the program holds, is answered the same way.\<close>

definition frame_rows :: "nat \<Rightarrow> user list prog" where
  "frame_rows a h =
     (if a < length h
      then (case h ! a of DataFrame rows \<Rightarrow> (Inr rows, h) | PyList _ \<Rightarrow> (Inl AttributeError, h))
      else (Inl AttributeError, h))"

definition list_append :: "nat \<Rightarrow> match \<Rightarrow> unit prog" where
  "list_append a x h =
     (if a < length h
      then (case h ! a of
              PyList xs \<Rightarrow> (Inr (), h[a := PyList (xs @ [x])])
            | DataFrame _ \<Rightarrow> (Inl AttributeError, h))
      else (Inl AttributeError, h))"

definition list_sort :: "nat \<Rightarrow> (match \<Rightarrow> int) \<Rightarrow> unit prog" where
  "list_sort a key h =
     (if a < length h
      then (case h ! a of
              PyList xs \<Rightarrow> (Inr (), h[a := PyList (sort_reverse key xs)])
            | DataFrame _ \<Rightarrow> (Inl AttributeError, h))
      else (Inl AttributeError, h))"

fun score_loop_st :: "user \<Rightarrow> int \<Rightarrow> nat \<Rightarrow> user list \<Rightarrow> unit prog" where
  "score_loop_st current_user user_id scores [] h = ret () h"
| "score_loop_st current_user user_id scores (potential_match # rest) h =
     (if userId potential_match = user_id
      then score_loop_st current_user user_id scores rest h
      else (let score = calculate_compatibility current_user potential_match
            in then_do
                 (list_append scores (userName potential_match, userId potential_match, score))
                 (\<lambda>_. score_loop_st current_user user_id scores rest) h))"

definition find_matches_st :: "int \<Rightarrow> nat \<Rightarrow> nat prog" where
  "find_matches_st user_id users_df =
     then_do (frame_rows users_df) (\<lambda>rows.
     then_do (of_result (iloc0 (filter (\<lambda>u. userId u = user_id) rows))) (\<lambda>current_user.
       let target_user_type =
             (if userType current_user = ''Traveler'' then ''Guide'' else ''Traveler'')
       in
     then_do (new_obj (DataFrame (filter (\<lambda>u. userType u = target_user_type) rows)))
       (\<lambda>potential_matches.
       let disliked_ids = dislikedUserIds current_user in
     then_do (frame_rows potential_matches) (\<lambda>rows.
     then_do (new_obj (DataFrame (filter (\<lambda>u. \<not> (userId u \<in> set disliked_ids)) rows)))
       (\<lambda>potential_matches.
     then_do (new_obj (PyList [])) (\<lambda>scores.
     then_do (frame_rows potential_matches) (\<lambda>rows.
     then_do (score_loop_st current_user user_id scores rows) (\<lambda>_.
     then_do (list_sort scores (\<lambda>x. snd (snd x))) (\<lambda>_.
     ret scores)))))))))"

section \<open>Notions used in the statements\<close>

text \<open>The number of values two serialized lists have in common.\<close>

definition shared :: "'a list \<Rightarrow> 'a list \<Rightarrow> nat" where
  "shared xs ys = card (set xs \<inter> set ys)"

text \<open>The bound of the specification, computed from the sets of one user.\<close>

definition score_bound :: "user \<Rightarrow> int" where
  "score_bound u =
     10 * int (card (set (interests u))) + 30 * int (card (set (languages u))) + 25
   + 10 * int (card (set (preferredActivities u)))
   + 20 * int (card (set (preferredCountries u)))"

text \<open>A record with some of its four list fields replaced by their deduplicated
  versions; each flag selects one field.\<close>

definition dedup_fields :: "bool \<Rightarrow> bool \<Rightarrow> bool \<Rightarrow> bool \<Rightarrow> user \<Rightarrow> user" where
  "dedup_fields i l a c u =
     u\<lparr>interests := (if i then remdups (interests u) else interests u),
       languages := (if l then remdups (languages u) else languages u),
       preferredActivities :=
         (if a then remdups (preferredActivities u) else preferredActivities u),
       preferredCountries :=
         (if c then remdups (preferredCountries u) else preferredCountries u)\<rparr>"

text \<open>The result entry built for a candidate row.\<close>

definition match_of :: "user \<Rightarrow> user \<Rightarrow> match" where
  "match_of current_user u = (userName u, userId u, calculate_compatibility current_user u)"

text \<open>The rows the match finder keeps: of the complementary role, not disliked by the
  current user, and not carrying the requested id.\<close>

definition candidate :: "int \<Rightarrow> user \<Rightarrow> user \<Rightarrow> bool" where
  "candidate user_id current_user u \<longleftrightarrow>
     userType u = (if userType current_user = ''Traveler'' then ''Guide'' else ''Traveler'')
     \<and> userId u \<notin> set (dislikedUserIds current_user)
     \<and> userId u \<noteq> user_id"

subsection \<open>Sample rows\<close>

definition laila :: user where
  "laila = \<lparr>userId = 5, userName = ''Laila'', userType = ''Traveler'',
     interests = [''art'', ''food'', ''art''], languages = [''Arabic'', ''English''],
     travelStyle = ''budget'', preferredActivities = [''hiking''],
     preferredCountries = [''Egypt''], dislikedUserIds = [7]\<rparr>"

definition khaled :: user where
  "khaled = \<lparr>userId = 6, userName = ''Khaled'', userType = ''Guide'',
     interests = [''food'', ''art'', ''music''], languages = [''English''],
     travelStyle = ''budget'', preferredActivities = [''hiking'', ''diving''],
     preferredCountries = [''Jordan''], dislikedUserIds = []\<rparr>"

definition salma :: user where
  "salma = \<lparr>userId = 7, userName = ''Salma'', userType = ''Guide'',
     interests = [''art'', ''food''], languages = [''English'', ''French''],
     travelStyle = ''budget'', preferredActivities = [''diving''],
     preferredCountries = [''Jordan''], dislikedUserIds = []\<rparr>"

definition yasmin :: user where
  "yasmin = \<lparr>userId = 8, userName = ''Yasmin'', userType = ''Guide'',
     interests = [''art'', ''food''], languages = [''English''],
     travelStyle = ''budget'', preferredActivities = [''hiking''],
     preferredCountries = [], dislikedUserIds = []\<rparr>"

definition karim :: user where
  "karim = \<lparr>userId = 9, userName = ''Karim'', userType = ''Admin'',
     interests = [''art''], languages = [], travelStyle = ''luxury'',
     preferredActivities = [], preferredCountries = [], dislikedUserIds = []\<rparr>"

definition mustafa :: user where
  "mustafa = \<lparr>userId = 10, userName = ''Mustafa'', userType = ''Guide'',
     interests = [''art'', ''food''], languages = [''Arabic'', ''English''],
     travelStyle = ''budget'', preferredActivities = [''hiking''],
     preferredCountries = [], dislikedUserIds = [5]\<rparr>"

definition users6 :: "user list" where
  "users6 = [laila, khaled, salma, yasmin, karim, mustafa]"

lemmas sample_defs =
  users6_def laila_def khaled_def salma_def yasmin_def karim_def mustafa_def

section \<open>Properties of the scorer\<close>

lemma calculate_compatibility_sum:
  "calculate_compatibility a b =
     10 * int (shared (interests a) (interests b))
   + 30 * int (shared (languages a) (languages b))
   + (if travelStyle a = travelStyle b then 25 else 0)
   + 10 * int (shared (preferredActivities a) (preferredActivities b))
   + 20 * int (shared (preferredCountries a) (preferredCountries b))"
  by (simp add: calculate_compatibility_def shared_def Let_def)

lemma shared_commute: "shared xs ys = shared ys xs"
  by (simp add: shared_def Int_commute)

lemma shared_le_left: "shared xs ys \<le> card (set xs)"
  unfolding shared_def by (rule card_mono) auto

lemma shared_le_right: "shared xs ys \<le> card (set ys)"
  unfolding shared_def by (rule card_mono) auto

text \<open>
  C1. For every pair of user records the score is exactly 10 times the number of shared
  interests, plus 30 times the number of shared languages, plus 25 if the two travelStyle
  values are equal (else 0), plus 10 times the number of shared preferred activities, plus
  20 times the number of shared preferred countries, each count being the size of the
  intersection of the two users' sets.
\<close>

theorem calculate_compatibility_formula:
  "calculate_compatibility a b =
     10 * int (card (set (interests a) \<inter> set (interests b)))
   + 30 * int (card (set (languages a) \<inter> set (languages b)))
   + (if travelStyle a = travelStyle b then 25 else 0)
   + 10 * int (card (set (preferredActivities a) \<inter> set (preferredActivities b)))
   + 20 * int (card (set (preferredCountries a) \<inter> set (preferredCountries b)))"
  using calculate_compatibility_sum [of a b] by (simp add: shared_def)

text \<open>
  C5. The score is symmetric in its two arguments.
\<close>

theorem calculate_compatibility_symmetric:
  "calculate_compatibility a b = calculate_compatibility b a"
  by (simp add: calculate_compatibility_sum shared_commute [of _ "interests b"]
      shared_commute [of _ "languages b"] shared_commute [of _ "preferredActivities b"]
      shared_commute [of _ "preferredCountries b"] eq_commute [of "travelStyle a"])

lemma shared_Nil [simp]: "shared [] ys = 0"
  by (simp add: shared_def)

lemma shared_Cons [simp]:
  "shared (x # xs) ys =
     (if x \<in> set ys \<and> x \<notin> set xs then Suc (shared xs ys) else shared xs ys)"
  by (auto simp: shared_def Int_insert_left insert_absorb)

text \<open>
  C6. For every pair of user records the score is non-negative and at most
  10*|interests| + 30*|languages| + 25 + 10*|preferredActivities| + 20*|preferredCountries|,
  where |X| is the size of the corresponding set of either user.
\<close>

theorem calculate_compatibility_bounds:
  "0 \<le> calculate_compatibility a b
   \<and> calculate_compatibility a b \<le> score_bound a
   \<and> calculate_compatibility a b \<le> score_bound b"
proof (intro conjI)
  show "0 \<le> calculate_compatibility a b"
    by (simp add: calculate_compatibility_sum)
  have le: "int (shared xs ys) \<le> int (card (set xs))"
           "int (shared xs ys) \<le> int (card (set ys))" for xs ys :: "string list"
    using shared_le_left [of xs ys] shared_le_right [of xs ys] by simp_all
  show "calculate_compatibility a b \<le> score_bound a"
    unfolding calculate_compatibility_sum score_bound_def
    using le(1) [of "interests a" "interests b"] le(1) [of "languages a" "languages b"]
      le(1) [of "preferredActivities a" "preferredActivities b"]
      le(1) [of "preferredCountries a" "preferredCountries b"]
    by (simp split: if_splits)
  show "calculate_compatibility a b \<le> score_bound b"
    unfolding calculate_compatibility_sum score_bound_def
    using le(2) [of "interests a" "interests b"] le(2) [of "languages a" "languages b"]
      le(2) [of "preferredActivities a" "preferredActivities b"]
      le(2) [of "preferredCountries a" "preferredCountries b"]
    by (simp split: if_splits)
qed

text \<open>
  C7, as stated: every pair of users who share exactly 2 interests and exactly 1 language
  and have equal travelStyle scores 75. Laila and Khaled are such a pair, and they also
  share the activity hiking, which the scorer counts: their score is 85.
\<close>

theorem shared_two_one_same_style_counterexample:
  "card (set (interests laila) \<inter> set (interests khaled)) = 2
   \<and> card (set (languages laila) \<inter> set (languages khaled)) = 1
   \<and> travelStyle laila = travelStyle khaled
   \<and> calculate_compatibility laila khaled = 85"
  by (simp add: calculate_compatibility_sum shared_def [symmetric] laila_def khaled_def)

text \<open>
  C7, amended: every pair of users who share exactly 2 interests and exactly 1 language,
  have equal travelStyle, and share no preferred activity and no preferred country,
  scores 20 + 30 + 25 = 75.
\<close>

theorem shared_two_one_same_style:
  assumes "card (set (interests a) \<inter> set (interests b)) = 2"
    and "card (set (languages a) \<inter> set (languages b)) = 1"
    and "travelStyle a = travelStyle b"
    and "set (preferredActivities a) \<inter> set (preferredActivities b) = {}"
    and "set (preferredCountries a) \<inter> set (preferredCountries b) = {}"
  shows "calculate_compatibility a b = 75"
  using assms by (simp add: calculate_compatibility_sum shared_def)

theorem shared_two_one_same_style_witness:
  "card (set (interests laila) \<inter> set (interests salma)) = 2
   \<and> card (set (languages laila) \<inter> set (languages salma)) = 1
   \<and> travelStyle laila = travelStyle salma
   \<and> set (preferredActivities laila) \<inter> set (preferredActivities salma) = {}
   \<and> set (preferredCountries laila) \<inter> set (preferredCountries salma) = {}
   \<and> calculate_compatibility laila salma = 75"
proof -
  have h1: "card (set (interests laila) \<inter> set (interests salma)) = 2"
    by (simp add: shared_def [symmetric] laila_def salma_def)
  have h2: "card (set (languages laila) \<inter> set (languages salma)) = 1"
    by (simp add: shared_def [symmetric] laila_def salma_def)
  have h3: "travelStyle laila = travelStyle salma"
    by (simp add: laila_def salma_def)
  have h4: "set (preferredActivities laila) \<inter> set (preferredActivities salma) = {}"
    by (simp add: laila_def salma_def)
  have h5: "set (preferredCountries laila) \<inter> set (preferredCountries salma) = {}"
    by (simp add: laila_def salma_def)
  show ?thesis
    using h1 h2 h3 h4 h5 shared_two_one_same_style [OF h1 h2 h3 h4 h5] by simp
qed

text \<open>
  C10. Duplicate entries in the list fields never affect the score: replacing any of the
  fields interests, languages, preferredActivities, preferredCountries of either record
  by its deduplicated version gives the same result.
\<close>

theorem duplicates_do_not_affect_score:
  "calculate_compatibility (dedup_fields i1 l1 a1 c1 a) (dedup_fields i2 l2 a2 c2 b)
     = calculate_compatibility a b"
  by (simp add: calculate_compatibility_sum dedup_fields_def shared_def)

section \<open>Properties of the match finder\<close>

lemma iloc0_filter_find:
  "iloc0 (filter P xs) = (case find P xs of None \<Rightarrow> Inl IndexError | Some x \<Rightarrow> Inr x)"
  by (induction xs) (simp_all add: iloc0_def)

lemma score_loop_eq:
  "score_loop cu uid rows acc = acc @ map (match_of cu) (filter (\<lambda>u. userId u \<noteq> uid) rows)"
  by (induction rows arbitrary: acc) (simp_all add: match_of_def Let_def)

lemma insort_key_map:
  "insort_key f (g a) (map g xs) = map g (insort_key (\<lambda>x. f (g x)) a xs)"
  by (induction xs) simp_all

lemma sort_key_map: "sort_key f (map g xs) = map g (sort_key (\<lambda>x. f (g x)) xs)"
  by (induction xs) (simp_all add: insort_key_map)

lemma sort_reverse_map:
  "sort_reverse f (map g xs) = map g (sort_reverse (\<lambda>x. f (g x)) xs)"
  by (simp add: sort_reverse_def sort_key_map rev_map)

lemma sort_reverse_Nil [simp]: "sort_reverse f [] = []"
  by (simp add: sort_reverse_def)

lemma sort_reverse_single [simp]: "sort_reverse f [x] = [x]"
  by (simp add: sort_reverse_def)

lemma set_sort_reverse [simp]: "set (sort_reverse f xs) = set xs"
  by (simp add: sort_reverse_def)

lemma mset_sort_reverse: "mset (sort_reverse f xs) = mset xs"
  by (simp add: sort_reverse_def)

lemma sort_reverse_descending: "sorted_wrt (\<lambda>a b. f b \<le> f a) (sort_reverse f xs)"
proof -
  have "sorted (map f (sort_key f (rev xs)))" by simp
  then have "sorted_wrt (\<lambda>a b. f a \<le> f b) (sort_key f (rev xs))"
    by (simp add: sorted_wrt_map)
  then show ?thesis by (simp add: sort_reverse_def sorted_wrt_rev)
qed

lemma sort_reverse_stable:
  "filter (\<lambda>y. f y = k) (sort_reverse f xs) = filter (\<lambda>y. f y = k) xs"
  by (simp add: sort_reverse_def rev_filter [symmetric] sort_key_stable)

lemma find_matches_found:
  assumes "find (\<lambda>u. userId u = user_id) users_df = Some cu"
  shows "find_matches user_id users_df =
           Inr (sort_reverse (\<lambda>x. snd (snd x))
                  (map (match_of cu) (filter (candidate user_id cu) users_df)))"
proof -
  define t where "t = (if userType cu = ''Traveler'' then ''Guide'' else ''Traveler'')"
  have "filter (\<lambda>u. userId u \<noteq> user_id)
          (filter (\<lambda>u. userId u \<notin> set (dislikedUserIds cu))
             (filter (\<lambda>u. userType u = t) users_df))
        = filter (candidate user_id cu) users_df"
    unfolding candidate_def t_def [symmetric] by (simp add: conj_ac)
  then show ?thesis
    using assms
    by (simp add: find_matches_def iloc0_filter_find score_loop_eq Let_def t_def)
qed

lemma find_matches_not_found:
  assumes "find (\<lambda>u. userId u = user_id) users_df = None"
  shows "find_matches user_id users_df = Inl IndexError"
  using assms by (simp add: find_matches_def iloc0_filter_find)

lemma find_present:
  assumes "user_id \<in> userId ` set users_df"
  obtains cu where "find (\<lambda>u. userId u = user_id) users_df = Some cu"
    "cu \<in> set users_df" "userId cu = user_id"
proof -
  from assms have "find (\<lambda>u. userId u = user_id) users_df \<noteq> None"
    by (auto simp: find_None_iff)
  then obtain cu where f: "find (\<lambda>u. userId u = user_id) users_df = Some cu" by auto
  then have "cu \<in> set users_df" "userId cu = user_id"
    by (auto simp: find_Some_iff)
  with f that show thesis by blast
qed

lemma candidate_other_role: "candidate user_id cu u \<Longrightarrow> userType u \<noteq> userType cu"
  by (auto simp: candidate_def split: if_splits)




text \<open>
  C2. For every target userId present in the collection, find_matches returns a list whose
  entries are the tuples of rows \<open>cs\<close> of the collection, and no row of \<open>cs\<close> has its id
  in the target user's dislikedUserIds, none has the target user's userType, and none is
  the target user (none carries the requested id).
\<close>

theorem find_matches_excludes:
  assumes "user_id \<in> userId ` set users_df"
  shows "\<exists>cu cs. find (\<lambda>u. userId u = user_id) users_df = Some cu
           \<and> find_matches user_id users_df = Inr (map (match_of cu) cs)
           \<and> set cs \<subseteq> set users_df
           \<and> (\<forall>u\<in>set cs. userId u \<notin> set (dislikedUserIds cu)
                 \<and> userType u \<noteq> userType cu
                 \<and> userId u \<noteq> user_id
                 \<and> u \<noteq> cu)"
proof -
  from assms obtain cu where cu: "find (\<lambda>u. userId u = user_id) users_df = Some cu"
    by (rule find_present)
  define cs where
    "cs = sort_reverse (calculate_compatibility cu) (filter (candidate user_id cu) users_df)"
  have res: "find_matches user_id users_df = Inr (map (match_of cu) cs)"
    by (simp add: find_matches_found [OF cu] sort_reverse_map cs_def match_of_def)
  have sub: "set cs \<subseteq> set users_df"
    by (auto simp: cs_def)
  have excl: "userId u \<notin> set (dislikedUserIds cu) \<and> userType u \<noteq> userType cu
      \<and> userId u \<noteq> user_id \<and> u \<noteq> cu" if "u \<in> set cs" for u
  proof -
    from that have c: "candidate user_id cu u" by (simp add: cs_def)
    then have "userType u \<noteq> userType cu" by (rule candidate_other_role)
    with c show ?thesis by (auto simp: candidate_def)
  qed
  from cu res sub excl show ?thesis by blast
qed

theorem find_matches_excludes_witness:
  "5 \<in> userId ` set users6
   \<and> (\<exists>cu cs. find (\<lambda>u. userId u = 5) users6 = Some cu
           \<and> find_matches 5 users6 = Inr (map (match_of cu) cs)
           \<and> set cs \<subseteq> set users6
           \<and> (\<forall>u\<in>set cs. userId u \<notin> set (dislikedUserIds cu)
                 \<and> userType u \<noteq> userType cu
                 \<and> userId u \<noteq> 5
                 \<and> u \<noteq> cu))"
proof -
  have h: "5 \<in> userId ` set users6" by (simp add: sample_defs)
  from h find_matches_excludes [OF h] show ?thesis by (rule conjI)
qed

text \<open>
  C3. For every target userId present in the collection, the returned tuples are the
  tuples of the rows that pass the filters (each such row once per occurrence, none
  dropped and none added), in descending order of score, and the rows behind tuples of
  equal score appear in the result in the order they have in the collection (the sort is
  stable).
\<close>

theorem find_matches_sorted_stable:
  assumes "user_id \<in> userId ` set users_df"
  shows "\<exists>cu cs. find (\<lambda>u. userId u = user_id) users_df = Some cu
           \<and> find_matches user_id users_df = Inr (map (match_of cu) cs)
           \<and> mset cs = mset (filter (candidate user_id cu) users_df)
           \<and> sorted_wrt (\<lambda>a b. snd (snd b) \<le> snd (snd a)) (map (match_of cu) cs)
           \<and> (\<forall>k. filter (\<lambda>u. calculate_compatibility cu u = k) cs
                    = filter (\<lambda>u. u \<in> set cs \<and> calculate_compatibility cu u = k) users_df)
           \<and> (\<forall>k. filter (\<lambda>m. snd (snd m) = k) (map (match_of cu) cs)
                    = map (match_of cu)
                        (filter (\<lambda>u. calculate_compatibility cu u = k)
                           (filter (candidate user_id cu) users_df)))"
proof -
  from assms obtain cu where cu: "find (\<lambda>u. userId u = user_id) users_df = Some cu"
    by (rule find_present)
  define cs where
    "cs = sort_reverse (calculate_compatibility cu) (filter (candidate user_id cu) users_df)"
  have res: "find_matches user_id users_df = Inr (map (match_of cu) cs)"
    by (simp add: find_matches_found [OF cu] sort_reverse_map cs_def match_of_def)
  have perm: "mset cs = mset (filter (candidate user_id cu) users_df)"
    unfolding cs_def by (rule mset_sort_reverse)
  have "sorted_wrt (\<lambda>a b. calculate_compatibility cu b \<le> calculate_compatibility cu a) cs"
    unfolding cs_def by (rule sort_reverse_descending)
  then have desc: "sorted_wrt (\<lambda>a b. snd (snd b) \<le> snd (snd a)) (map (match_of cu) cs)"
    by (simp add: sorted_wrt_map match_of_def)
  have keep: "filter (\<lambda>u. calculate_compatibility cu u = k) cs
      = filter (\<lambda>u. calculate_compatibility cu u = k) (filter (candidate user_id cu) users_df)"
    for k
    unfolding cs_def by (rule sort_reverse_stable)
  have stable: "filter (\<lambda>u. calculate_compatibility cu u = k) cs
      = filter (\<lambda>u. u \<in> set cs \<and> calculate_compatibility cu u = k) users_df" for k
  proof -
    have "filter (\<lambda>u. calculate_compatibility cu u = k) (filter (candidate user_id cu) users_df)
        = filter (\<lambda>u. u \<in> set cs \<and> calculate_compatibility cu u = k) users_df"
      by (auto simp: cs_def intro: filter_cong)
    with keep [of k] show ?thesis by simp
  qed
  have tuples: "filter (\<lambda>m. snd (snd m) = k) (map (match_of cu) cs)
      = map (match_of cu)
          (filter (\<lambda>u. calculate_compatibility cu u = k)
             (filter (candidate user_id cu) users_df))" for k
  proof -
    have "filter (\<lambda>m. snd (snd m) = k) (map (match_of cu) cs)
        = map (match_of cu) (filter (\<lambda>u. calculate_compatibility cu u = k) cs)"
      by (simp add: filter_map comp_def match_of_def)
    with keep [of k] show ?thesis by simp
  qed
  from cu res perm desc stable tuples show ?thesis by blast
qed

theorem find_matches_sorted_stable_witness:
  "5 \<in> userId ` set users6
   \<and> (\<exists>cu cs. find (\<lambda>u. userId u = 5) users6 = Some cu
           \<and> find_matches 5 users6 = Inr (map (match_of cu) cs)
           \<and> mset cs = mset (filter (candidate 5 cu) users6)
           \<and> sorted_wrt (\<lambda>a b. snd (snd b) \<le> snd (snd a)) (map (match_of cu) cs)
           \<and> (\<forall>k. filter (\<lambda>u. calculate_compatibility cu u = k) cs
                    = filter (\<lambda>u. u \<in> set cs \<and> calculate_compatibility cu u = k) users6)
           \<and> (\<forall>k. filter (\<lambda>m. snd (snd m) = k) (map (match_of cu) cs)
                    = map (match_of cu)
                        (filter (\<lambda>u. calculate_compatibility cu u = k)
                           (filter (candidate 5 cu) users6))))
   \<and> filter (candidate 5 laila) users6 = [khaled, yasmin, mustafa]
   \<and> find_matches 5 users6 =
        Inr [(''Mustafa'', 10, 115), (''Khaled'', 6, 85), (''Yasmin'', 8, 85)]"
proof -
  have h: "5 \<in> userId ` set users6" by (simp add: sample_defs)
  have c: "filter (candidate 5 laila) users6 = [khaled, yasmin, mustafa]"
    by (simp add: candidate_def sample_defs)
  have r: "find_matches 5 users6 =
      Inr [(''Mustafa'', 10, 115), (''Khaled'', 6, 85), (''Yasmin'', 8, 85)]"
    by (simp add: find_matches_def iloc0_def sample_defs calculate_compatibility_sum
        sort_reverse_def)
  from h find_matches_sorted_stable [OF h] c r show ?thesis by blast
qed

text \<open>
  C4, as stated: a userId that is not in the collection gives a clear "user not found"
  failure rather than the crash of an unchecked index access. No row of the sample
  collection has id 42, and the call fails with the IndexError of \<^verbatim>\<open>.iloc[0]\<close>.
\<close>

theorem find_matches_unknown_user_counterexample:
  "42 \<notin> userId ` set users6 \<and> find_matches 42 users6 = Inl IndexError"
  by (simp add: find_matches_def iloc0_def sample_defs)

text \<open>
  C4, amended: a userId that is not in the collection makes find_matches fail with the
  IndexError raised by \<^verbatim>\<open>.iloc[0]\<close> on the empty selection.
\<close>

theorem find_matches_unknown_user:
  assumes "user_id \<notin> userId ` set users_df"
  shows "find_matches user_id users_df = Inl IndexError"
proof -
  from assms have "find (\<lambda>u. userId u = user_id) users_df = None"
    by (auto simp: find_None_iff)
  then show ?thesis by (rule find_matches_not_found)
qed

theorem find_matches_unknown_user_witness:
  "99 \<notin> userId ` set users6 \<and> find_matches 99 users6 = Inl IndexError"
proof -
  have h: "99 \<notin> userId ` set users6" by (simp add: sample_defs)
  from h find_matches_unknown_user [OF h] show ?thesis by (rule conjI)
qed

text \<open>
  C9. A target user whose userType is anything other than the string Traveler is matched
  against the rows of type Traveler, and a target of type Traveler against the rows of
  type Guide; in both cases the call returns a result (an unrecognized role is not
  rejected).
\<close>

theorem find_matches_target_role:
  assumes "find (\<lambda>u. userId u = user_id) users_df = Some cu"
  shows "(userType cu \<noteq> ''Traveler'' \<longrightarrow>
            find_matches user_id users_df =
              Inr (sort_reverse (\<lambda>x. snd (snd x))
                    (map (match_of cu)
                      (filter (\<lambda>u. userType u = ''Traveler''
                                 \<and> userId u \<notin> set (dislikedUserIds cu)
                                 \<and> userId u \<noteq> user_id) users_df))))
       \<and> (userType cu = ''Traveler'' \<longrightarrow>
            find_matches user_id users_df =
              Inr (sort_reverse (\<lambda>x. snd (snd x))
                    (map (match_of cu)
                      (filter (\<lambda>u. userType u = ''Guide''
                                 \<and> userId u \<notin> set (dislikedUserIds cu)
                                 \<and> userId u \<noteq> user_id) users_df))))"
proof (cases "userType cu = ''Traveler''")
  case True
  then have "candidate user_id cu =
      (\<lambda>u. userType u = ''Guide'' \<and> userId u \<notin> set (dislikedUserIds cu) \<and> userId u \<noteq> user_id)"
    by (intro ext) (simp add: candidate_def)
  with True show ?thesis by (simp add: find_matches_found [OF assms])
next
  case False
  then have "candidate user_id cu =
      (\<lambda>u. userType u = ''Traveler'' \<and> userId u \<notin> set (dislikedUserIds cu) \<and> userId u \<noteq> user_id)"
    by (intro ext) (simp add: candidate_def)
  with False show ?thesis by (simp add: find_matches_found [OF assms])
qed

theorem find_matches_target_role_witness:
  "find (\<lambda>u. userId u = 9) users6 = Some karim
   \<and> userType karim \<noteq> ''Traveler''
   \<and> find_matches 9 users6 = Inr [(''Laila'', 5, 10)]
   \<and> find (\<lambda>u. userId u = 5) users6 = Some laila
   \<and> userType laila = ''Traveler''
   \<and> find_matches 5 users6 =
        Inr [(''Mustafa'', 10, 115), (''Khaled'', 6, 85), (''Yasmin'', 8, 85)]"
proof -
  have k: "find (\<lambda>u. userId u = 9) users6 = Some karim"
    by (simp add: sample_defs)
  have kt: "userType karim \<noteq> ''Traveler''"
    by (simp add: karim_def)
  have l: "find (\<lambda>u. userId u = 5) users6 = Some laila"
    by (simp add: sample_defs)
  have lt: "userType laila = ''Traveler''"
    by (simp add: laila_def)
  have km: "find_matches 9 users6 = Inr [(''Laila'', 5, 10)]"
    using find_matches_target_role [OF k] kt
    by (simp add: sample_defs match_of_def calculate_compatibility_sum)
  have lm: "find_matches 5 users6 =
      Inr [(''Mustafa'', 10, 115), (''Khaled'', 6, 85), (''Yasmin'', 8, 85)]"
    using find_matches_target_role [OF l] lt
    by (simp add: sample_defs match_of_def calculate_compatibility_sum sort_reverse_def)
  from k kt km l lt lm show ?thesis by simp
qed

section \<open>Objects changed by a call\<close>

lemma score_loop_st_eq:
  assumes "a < length h" and "h ! a = PyList acc"
  shows "score_loop_st cu uid a rows h = (Inr (), h[a := PyList (score_loop cu uid rows acc)])"
  using assms
proof (induction rows arbitrary: h acc)
  case Nil
  have "h[a := h ! a] = h" by (rule list_update_id)
  with Nil show ?case by (simp add: ret_def)
next
  case (Cons r rows)
  show ?case
  proof (cases "userId r = uid")
    case True
    with Cons show ?thesis by simp
  next
    case False
    let ?m = "(userName r, userId r, calculate_compatibility cu r)"
    let ?h = "h[a := PyList (acc @ [?m])]"
    have "score_loop_st cu uid a rows ?h
        = (Inr (), ?h[a := PyList (score_loop cu uid rows (acc @ [?m]))])"
      using Cons.prems by (intro Cons.IH) simp_all
    with False Cons.prems show ?thesis
      by (simp add: then_do_def list_append_def Let_def)
  qed
qed

lemma update_third_new:
  "(h @ [x, y, z])[Suc (Suc (length h)) := v] = h @ [x, y, v]"
proof -
  have "Suc (Suc (length h)) - length h = Suc (Suc 0)" by simp
  then show ?thesis by (simp add: list_update_append)
qed

lemma find_matches_st_no_frame:
  assumes "\<not> (users_df < length h \<and> (\<exists>rows. h ! users_df = DataFrame rows))"
  shows "find_matches_st user_id users_df h = (Inl AttributeError, h)"
  using assms
  by (auto simp: find_matches_st_def then_do_def frame_rows_def split: obj.splits)

text \<open>On a table, the call raises what \<^const>\<open>find_matches\<close> raises on its rows, or returns
  the address of a new list holding what \<^const>\<open>find_matches\<close> returns.\<close>

lemma find_matches_st_raises:
  assumes "users_df < length h" and "h ! users_df = DataFrame rows"
    and "find_matches user_id rows = Inl e"
  shows "find_matches_st user_id users_df h = (Inl e, h)"
proof (cases "filter (\<lambda>u. userId u = user_id) rows")
  case Nil
  with assms show ?thesis
    by (simp add: find_matches_st_def find_matches_def then_do_def frame_rows_def
        of_result_def iloc0_def)
next
  case (Cons cu rest)
  with assms(3) show ?thesis
    by (simp add: find_matches_def iloc0_def Let_def)
qed

lemma find_matches_st_returns:
  assumes "users_df < length h" and "h ! users_df = DataFrame rows"
    and "find_matches user_id rows = Inr ms"
  shows "\<exists>rows1 rows2. find_matches_st user_id users_df h =
           (Inr (length h + 2), h @ [DataFrame rows1, DataFrame rows2, PyList ms])"
proof (cases "filter (\<lambda>u. userId u = user_id) rows")
  case Nil
  with assms(3) show ?thesis
    by (simp add: find_matches_def iloc0_def)
next
  case (Cons cu rest)
  with assms show ?thesis
    by (auto simp: find_matches_st_def find_matches_def then_do_def frame_rows_def
        of_result_def iloc0_def new_obj_def Let_def nth_append score_loop_st_eq
        list_sort_def ret_def update_third_new)
qed

text \<open>
  C8. find_matches and calculate_compatibility never mutate their inputs: after any call
  of find_matches, whether it returns or raises, every object that existed before the
  call, the user collection and its records among them, is unchanged; the call only adds
  objects of its own. (The scorer only reads the two rows it is given.)
\<close>

theorem find_matches_st_preserves:
  "take (length h) (snd (find_matches_st user_id users_df h)) = h"
proof (cases "users_df < length h \<and> (\<exists>rows. h ! users_df = DataFrame rows)")
  case True
  then obtain rows where fr: "users_df < length h" "h ! users_df = DataFrame rows"
    by blast
  show ?thesis
  proof (cases "find_matches user_id rows")
    case (Inl e)
    with fr show ?thesis by (simp add: find_matches_st_raises)
  next
    case (Inr ms)
    with fr find_matches_st_returns [of users_df h rows user_id ms] show ?thesis
      by auto
  qed
next
  case False
  then show ?thesis by (simp add: find_matches_st_no_frame)
qed

text \<open>A call on a store that holds a list and the sample table.\<close>

lemma find_matches_st_sample:
  "find_matches_st 5 1 [PyList [(''x'', 1, 0)], DataFrame users6] =
     (Inr 4,
      [PyList [(''x'', 1, 0)], DataFrame users6,
       DataFrame [khaled, salma, yasmin, mustafa],
       DataFrame [khaled, yasmin, mustafa],
       PyList [(''Mustafa'', 10, 115), (''Khaled'', 6, 85), (''Yasmin'', 8, 85)]])"
proof -
  show ?thesis
    by (simp add: find_matches_st_def then_do_def frame_rows_def of_result_def iloc0_def
        new_obj_def list_append_def list_sort_def ret_def sort_reverse_def
        calculate_compatibility_sum sample_defs)
qed

end
